theory Spec2Isabelle
  imports Main "HOL-Library.Sublist"
begin

section \<open>Python values used by the command-line front-end\<close>

text \<open>
  The front-end of xacro (\<^verbatim>\<open>xacro/cli.py\<close> and \<^verbatim>\<open>xacro/__init__.py\<close>) works on
  Python strings, lists of strings, dictionaries from strings to strings and text
  streams. A Python \<^verbatim>\<open>str\<close> is modelled as a \<^typ>\<open>string\<close> whose characters stand
  for the code points U+0000 to U+00FF. Exceptions are values of \<open>py_exc\<close>; a function
  that may raise returns \<open>py_exc + 'a\<close> with \<open>Inl\<close> for the exception.
\<close>

datatype py_exc =
    TypeError
  | ValueError
  | UnsupportedOperation
  | RuntimeError string
  | SystemExit int

subsection \<open>String primitives\<close>

text \<open>\<^verbatim>\<open>sep in s\<close>: the substring test.\<close>

fun str_contains :: "string \<Rightarrow> string \<Rightarrow> bool" where
  "str_contains sep [] = (sep = [])"
| "str_contains sep (c # cs) = (prefix sep (c # cs) \<or> str_contains sep cs)"

text \<open>
  \<^verbatim>\<open>s.split(sep)\<close> for a non-empty separator: the text is scanned from the left, every
  occurrence of the separator that does not overlap an earlier one ends a part. After
  a match at the head, the remaining \<open>length sep - 1\<close> characters of the separator are
  dropped from the tail.
\<close>

fun split_str :: "string \<Rightarrow> string \<Rightarrow> string list" where
  "split_str sep [] = [[]]"
| "split_str sep (c # cs) =
     (if prefix sep (c # cs) then [] # split_str sep (drop (length sep - 1) cs)
      else (case split_str sep cs of [] \<Rightarrow> [[c]] | p # ps \<Rightarrow> (c # p) # ps))"

text \<open>Python raises \<^verbatim>\<open>ValueError("empty separator")\<close> for an empty separator.\<close>

definition py_split :: "string \<Rightarrow> string \<Rightarrow> py_exc + string list" where
  "py_split s sep = (if sep = [] then Inl ValueError else Inr (split_str sep s))"

text \<open>
  \<^verbatim>\<open>str.isspace\<close> on the code points below 256: the characters for which
  \<^verbatim>\<open>chr(i).isspace()\<close> holds are 9 to 13, 28 to 32, 133 and 160.
\<close>

definition isspace :: "char \<Rightarrow> bool" where
  "isspace c = (c \<in> set [CHR 0x09, CHR 0x0A, CHR 0x0B, CHR 0x0C, CHR 0x0D,
                          CHR 0x1C, CHR 0x1D, CHR 0x1E, CHR 0x1F, CHR 0x20,
                          CHR 0x85, CHR 0xA0])"

text \<open>\<^verbatim>\<open>s.strip()\<close>: leading and trailing whitespace removed.\<close>

definition strip :: "string \<Rightarrow> string" where
  "strip s = rev (dropWhile isspace (rev (dropWhile isspace s)))"

text \<open>\<^verbatim>\<open>sep.join(parts)\<close>.\<close>

fun join_str :: "string \<Rightarrow> string list \<Rightarrow> string" where
  "join_str sep [] = []"
| "join_str sep [p] = p"
| "join_str sep (p # q # ps) = p @ sep @ join_str sep (q # ps)"

text \<open>
  The number of positions of a text at which the separator occurs. It is the measure
  the claims about "delimiter occurrences" are stated with; the code never computes it.
\<close>

fun occurrences :: "string \<Rightarrow> string \<Rightarrow> nat" where
  "occurrences sep [] = (if sep = [] then 1 else 0)"
| "occurrences sep (c # cs) = (if prefix sep (c # cs) then 1 else 0) + occurrences sep cs"


section \<open>The remap extractor: \<^verbatim>\<open>load_mappings\<close>\<close>

text \<open>\<^verbatim>\<open>REMAP = ":="\<close>\<close>

definition REMAP :: string where
  "REMAP = '':=''"

text \<open>\<^verbatim>\<open>"Invalid remapping argument '%s'\n" % arg\<close>\<close>

definition invalid_remap_msg :: "string \<Rightarrow> string" where
  "invalid_remap_msg arg =
     ''Invalid remapping argument '' @ [CHR 0x27] @ arg @ [CHR 0x27, CHR 0x0A]"

text \<open>
  The test \<^verbatim>\<open>len(src) > 1 and src[0] == "_" and src[1] != "_"\<close> that marks a
  parameter assignment; the length test guards both index reads.
\<close>

definition is_param_assignment :: "string \<Rightarrow> bool" where
  "is_param_assignment src =
     (length src > 1 \<and> src ! 0 = CHR ''_'' \<and> src ! 1 \<noteq> CHR ''_'')"

text \<open>
  One pass of the loop body of \<^verbatim>\<open>load_mappings\<close> on the dictionary built so far:
  \<^verbatim>\<open>
    if REMAP in arg:
        try:
            src, dst = [x.strip() for x in arg.split(REMAP)]
            if src and dst:
                if len(src) > 1 and src[0] == "_" and src[1] != "_":
                    pass
                else:
                    mappings[src] = dst
        except Exception:
            raise RuntimeError("Invalid remapping argument '%s'\n" % arg)
  \<close>
  The unpacking into \<^verbatim>\<open>src, dst\<close> raises \<^verbatim>\<open>ValueError\<close> unless the list has exactly two
  elements; every exception of the \<^verbatim>\<open>try\<close> block becomes the \<^verbatim>\<open>RuntimeError\<close>.
\<close>

definition load_mapping_arg ::
  "(string \<rightharpoonup> string) \<Rightarrow> string \<Rightarrow> py_exc + (string \<rightharpoonup> string)" where
  "load_mapping_arg mappings arg =
     (if str_contains REMAP arg then
        (case py_split arg REMAP of
           Inl e \<Rightarrow> Inl (RuntimeError (invalid_remap_msg arg))
         | Inr parts \<Rightarrow>
             (case map strip parts of
                [src, dst] \<Rightarrow>
                  Inr (if src \<noteq> [] \<and> dst \<noteq> [] then
                         (if is_param_assignment src then mappings
                          else mappings(src \<mapsto> dst))
                       else mappings)
              | _ \<Rightarrow> Inl (RuntimeError (invalid_remap_msg arg))))
      else Inr mappings)"

text \<open>The \<^verbatim>\<open>for arg in argv\<close> loop; the first exception ends it.\<close>

fun load_mappings_loop ::
  "(string \<rightharpoonup> string) \<Rightarrow> string list \<Rightarrow> py_exc + (string \<rightharpoonup> string)" where
  "load_mappings_loop mappings [] = Inr mappings"
| "load_mappings_loop mappings (arg # argv) =
     (case load_mapping_arg mappings arg of
        Inl e \<Rightarrow> Inl e
      | Inr mappings' \<Rightarrow> load_mappings_loop mappings' argv)"

definition load_mappings :: "string list \<Rightarrow> py_exc + (string \<rightharpoonup> string)" where
  "load_mappings argv = load_mappings_loop Map.empty argv"

text \<open>
  A token that makes \<^verbatim>\<open>load_mappings\<close> raise: it contains the delimiter and its split
  does not have exactly two parts.
\<close>

definition bad_remap :: "string \<Rightarrow> bool" where
  "bad_remap arg = (str_contains REMAP arg \<and> length (split_str REMAP arg) \<noteq> 2)"

text \<open>
  Line 179 of \<^verbatim>\<open>process_args\<close>:
  \<^verbatim>\<open>filtered_args = [a for a in argv if REMAP not in a]\<close>
\<close>

definition filtered_args :: "string list \<Rightarrow> string list" where
  "filtered_args argv = [a \<leftarrow> argv. \<not> str_contains REMAP a]"


section \<open>Text streams and the interpreter state\<close>

text \<open>
  A text stream object. \<open>isatty\<close> is \<open>None\<close> when the object has no \<^verbatim>\<open>isatty\<close>
  attribute, otherwise what \<^verbatim>\<open>isatty()\<close> returns. \<open>buffer\<close> is the text written so
  far and \<open>pos\<close> the stream position. Streams are open; closing is not modelled.
\<close>

record stream =
  isatty :: "bool option"
  seekable :: bool
  readable :: bool
  buffer :: string
  pos :: nat

text \<open>
  The part of the interpreter state the front-end touches: the stream objects by
  identity, the next unused identity, the bindings \<^verbatim>\<open>sys.stdout\<close> and \<^verbatim>\<open>sys.stderr\<close>, and
  the object \<^verbatim>\<open>sys.stderr\<close> was bound to when \<^verbatim>\<open>cli.py\<close> was imported (the default of
  the parameter \<^verbatim>\<open>file\<close> of \<^verbatim>\<open>colorize\<close> is evaluated then).
\<close>

record world =
  objs :: "nat \<Rightarrow> stream"
  next_id :: nat
  sys_stdout :: nat
  sys_stderr :: nat
  stderr_at_import :: nat

text \<open>\<^verbatim>\<open>StringIO()\<close>: empty, seekable, readable, not a terminal.\<close>

definition new_StringIO :: stream where
  "new_StringIO =
     \<lparr>isatty = Some False, seekable = True, readable = True, buffer = [], pos = 0\<rparr>"

text \<open>
  \<^verbatim>\<open>write(text)\<close> at the stream position: the text replaces what is there and extends
  the buffer; a position beyond the end is padded with NUL, as \<^verbatim>\<open>StringIO\<close> does.
\<close>

definition stream_write :: "string \<Rightarrow> stream \<Rightarrow> stream" where
  "stream_write text s =
     s\<lparr>buffer := take (pos s) (buffer s) @ replicate (pos s - length (buffer s)) (CHR 0x00)
                  @ text @ drop (pos s + length text) (buffer s),
       pos := pos s + length text\<rparr>"

text \<open>\<^verbatim>\<open>seek(0)\<close> and \<^verbatim>\<open>read()\<close>; a stream that cannot do it raises.\<close>

definition stream_seek0 :: "stream \<Rightarrow> py_exc + stream" where
  "stream_seek0 s = (if seekable s then Inr (s\<lparr>pos := 0\<rparr>) else Inl UnsupportedOperation)"

definition stream_read :: "stream \<Rightarrow> py_exc + string \<times> stream" where
  "stream_read s =
     (if readable s
      then Inr (drop (pos s) (buffer s), s\<lparr>pos := max (pos s) (length (buffer s))\<rparr>)
      else Inl UnsupportedOperation)"

definition py_write :: "nat \<Rightarrow> string \<Rightarrow> world \<Rightarrow> world" where
  "py_write file text w = w\<lparr>objs := (objs w)(file := stream_write text (objs w file))\<rparr>"

text \<open>\<^verbatim>\<open>print(*items, file=file)\<close>: the items separated by a space, then a newline.\<close>

definition py_print :: "string list \<Rightarrow> nat \<Rightarrow> world \<Rightarrow> world" where
  "py_print items file w = py_write file (join_str '' '' items @ [CHR 0x0A]) w"


section \<open>Diagnostics: \<^verbatim>\<open>colorize\<close>, \<^verbatim>\<open>message\<close>, \<^verbatim>\<open>warning\<close>, \<^verbatim>\<open>error\<close>\<close>

text \<open>The format specification \<^verbatim>\<open>d\<close> of an integer: its decimal digits.\<close>

fun dec_digits :: "nat \<Rightarrow> string" where
  "dec_digits n =
     (if n < 10 then [''0123456789'' ! n]
      else dec_digits (n div 10) @ [''0123456789'' ! (n mod 10)])"

declare dec_digits.simps [simp del]

definition format_d :: "int \<Rightarrow> string" where
  "format_d i = (if i < 0 then CHR ''-'' # dec_digits (nat (- i)) else dec_digits (nat i))"

text \<open>
  The format specification \<^verbatim>\<open>s\<close> in an f-string: a string formats as itself, and
  \<^verbatim>\<open>None\<close> raises \<^verbatim>\<open>TypeError\<close> (unsupported format string passed to
  \<^verbatim>\<open>NoneType.__format__\<close>).
\<close>

definition format_s :: "string option \<Rightarrow> py_exc + string" where
  "format_s v = (case v of None \<Rightarrow> Inl TypeError | Some s \<Rightarrow> Inr s)"

text \<open>\<^verbatim>\<open>_ansi = {"red": 91, "yellow": 93}\<close>, read with \<^verbatim>\<open>_ansi.get(color, None)\<close>.\<close>

definition ansi :: "string \<Rightarrow> int option" where
  "ansi name =
     (if name = ''red'' then Some 91 else if name = ''yellow'' then Some 93 else None)"

text \<open>
  \<^verbatim>\<open>
  def colorize(msg, color, file=sys.stderr, alt_text=""):
      color = _ansi.get(color, None)
      if color and hasattr(file, "isatty") and file.isatty():
          return f"\033[{color:d}m{msg:s}\033[0m"
      return f"{alt_text:s}{msg:s}"
  \<close>
  The colour name and the alternative text may be \<^verbatim>\<open>None\<close>, as \<^verbatim>\<open>message\<close> passes them.
\<close>

definition colorize ::
  "string \<Rightarrow> string option \<Rightarrow> stream \<Rightarrow> string option \<Rightarrow> py_exc + string" where
  "colorize msg color file alt_text =
     (let plain = (case format_s alt_text of Inl e \<Rightarrow> Inl e | Inr a \<Rightarrow> Inr (a @ msg)) in
      case (case color of None \<Rightarrow> None | Some name \<Rightarrow> ansi name) of
        None \<Rightarrow> plain
      | Some code \<Rightarrow>
          if code \<noteq> 0 \<and> isatty file = Some True then
            Inr ([CHR 0x1B, CHR ''[''] @ format_d code @ ''m'' @ msg @ [CHR 0x1B] @ ''[0m'')
          else plain)"

text \<open>
  The keyword arguments \<^verbatim>\<open>file\<close>, \<^verbatim>\<open>alt_text\<close> and \<^verbatim>\<open>color\<close>: the outer \<open>None\<close> is a
  keyword that was not passed; \<open>Some None\<close> is \<^verbatim>\<open>None\<close> passed for it.
\<close>

record kwargs =
  kw_file :: "nat option"
  kw_alt_text :: "string option option"
  kw_color :: "string option option"

definition no_kwargs :: kwargs where
  "no_kwargs = \<lparr>kw_file = None, kw_alt_text = None, kw_color = None\<rparr>"

text \<open>
  \<^verbatim>\<open>
  def message(msg, *args, **kwargs):
      file = kwargs.get("file", sys.stderr)
      alt_text = kwargs.get("alt_text", None)
      color = kwargs.get("color", None)
      print(colorize(msg, color, file, alt_text), *args, file=file)
  \<close>
\<close>

definition message ::
  "string \<Rightarrow> string list \<Rightarrow> kwargs \<Rightarrow> world \<Rightarrow> (py_exc + unit) \<times> world" where
  "message msg args kwargs w =
     (let file = (case kw_file kwargs of None \<Rightarrow> sys_stderr w | Some f \<Rightarrow> f);
          alt_text = (case kw_alt_text kwargs of None \<Rightarrow> None | Some a \<Rightarrow> a);
          color = (case kw_color kwargs of None \<Rightarrow> None | Some c \<Rightarrow> c)
      in case colorize msg color (objs w file) alt_text of
           Inl e \<Rightarrow> (Inl e, w)
         | Inr text \<Rightarrow> (Inr (), py_print (text # args) file w))"

text \<open>\<^verbatim>\<open>defaults.update(kwargs)\<close>: a keyword that was passed replaces the default.\<close>

definition update_kwargs :: "kwargs \<Rightarrow> kwargs \<Rightarrow> kwargs" where
  "update_kwargs defaults kwargs =
     \<lparr>kw_file = (case kw_file kwargs of None \<Rightarrow> kw_file defaults | Some f \<Rightarrow> Some f),
      kw_alt_text =
        (case kw_alt_text kwargs of None \<Rightarrow> kw_alt_text defaults | Some a \<Rightarrow> Some a),
      kw_color = (case kw_color kwargs of None \<Rightarrow> kw_color defaults | Some c \<Rightarrow> Some c)\<rparr>"

text \<open>
  \<^verbatim>\<open>
  def warning(*args, **kwargs):
      defaults = dict(file=sys.stderr, alt_text="warning: ", color="yellow")
      defaults.update(kwargs)
      message(*args, **defaults)
  \<close>
  and \<^verbatim>\<open>error\<close> likewise with \<^verbatim>\<open>"error: "\<close> and \<^verbatim>\<open>"red"\<close>. The first positional
  argument is the message.
\<close>

definition warning ::
  "string \<Rightarrow> string list \<Rightarrow> kwargs \<Rightarrow> world \<Rightarrow> (py_exc + unit) \<times> world" where
  "warning msg args kwargs w =
     (let defaults = \<lparr>kw_file = Some (sys_stderr w), kw_alt_text = Some (Some ''warning: ''),
                      kw_color = Some (Some ''yellow'')\<rparr>
      in message msg args (update_kwargs defaults kwargs) w)"

definition error ::
  "string \<Rightarrow> string list \<Rightarrow> kwargs \<Rightarrow> world \<Rightarrow> (py_exc + unit) \<times> world" where
  "error msg args kwargs w =
     (let defaults = \<lparr>kw_file = Some (sys_stderr w), kw_alt_text = Some (Some ''error: ''),
                      kw_color = Some (Some ''red'')\<rparr>
      in message msg args (update_kwargs defaults kwargs) w)"


section \<open>The flag parser built by \<^verbatim>\<open>process_args\<close>\<close>

text \<open>
  \<^verbatim>\<open>process_args\<close> builds a \<^verbatim>\<open>ColoredOptionParser\<close>, a subclass of
  \<^verbatim>\<open>optparse.OptionParser\<close> of the Python standard library, and registers the options
  \<^verbatim>\<open>-o\<close>, \<^verbatim>\<open>--deps\<close>, \<^verbatim>\<open>--inorder\<close>/\<^verbatim>\<open>-i\<close>, \<^verbatim>\<open>-q\<close>, \<^verbatim>\<open>-v\<close> and \<^verbatim>\<open>--verbosity\<close>; the library
  adds \<^verbatim>\<open>-h\<close>/\<^verbatim>\<open>--help\<close>. The library is not part of the repository: the definitions
  named \<open>op_...\<close> follow the methods of \<^verbatim>\<open>Lib/optparse.py\<close> that \<^verbatim>\<open>parse_args\<close> runs,
  for this option table. What the library takes from its host is a parameter: the
  program name, the formatted help text, the built-in \<^verbatim>\<open>int(val, radix)\<close> (\<open>None\<close> when
  it raises \<^verbatim>\<open>ValueError\<close>) and \<^verbatim>\<open>repr\<close> of a string.
\<close>

record runtime =
  prog_name :: string
  help_text :: string
  py_int :: "string \<Rightarrow> nat \<Rightarrow> int option"
  py_repr :: "string \<Rightarrow> string"

text \<open>
  The \<^verbatim>\<open>Values\<close> object the parser fills. \<^verbatim>\<open>set_defaults(just_deps=False, verbosity=1)\<close>
  gives two destinations a default; the others start as \<^verbatim>\<open>None\<close>.
\<close>

record "values" =
  v_output :: "string option"
  v_just_deps :: bool
  v_in_order :: "bool option"
  v_verbosity :: int

definition default_values :: "values" where
  "default_values =
     \<lparr>v_output = None, v_just_deps = False, v_in_order = None, v_verbosity = 1\<rparr>"

text \<open>The options that take no value, and those that take one.\<close>

datatype flag_option = OptHelp | OptDeps | OptInorder | OptQuiet | OptVerbose

datatype value_option = OptOutput | OptVerbosity

datatype option_id = Flag flag_option | Valued value_option

text \<open>
  What parsing ends in: the result, a call of \<^verbatim>\<open>parser.error(msg)\<close> (directly, or through
  a \<^verbatim>\<open>BadOptionError\<close> or \<^verbatim>\<open>OptionValueError\<close> that \<^verbatim>\<open>parse_args\<close> catches), or the
  help action.
\<close>

datatype 'a parse_result = Done 'a | Usage string | Help

text \<open>\<^verbatim>\<open>parser._short_opt.get("-" + ch)\<close>\<close>

definition short_opt :: "char \<Rightarrow> option_id option" where
  "short_opt ch =
     (if ch = CHR ''h'' then Some (Flag OptHelp)
      else if ch = CHR ''o'' then Some (Valued OptOutput)
      else if ch = CHR ''i'' then Some (Flag OptInorder)
      else if ch = CHR ''q'' then Some (Flag OptQuiet)
      else if ch = CHR ''v'' then Some (Flag OptVerbose)
      else None)"

text \<open>
  \<^verbatim>\<open>parser._long_opt\<close>, listed in the sorted order of its keys, the order in which an
  ambiguity is reported.
\<close>

definition long_opt :: "(string \<times> option_id) list" where
  "long_opt =
     [(''--deps'', Flag OptDeps), (''--help'', Flag OptHelp),
      (''--inorder'', Flag OptInorder), (''--verbosity'', Valued OptVerbosity)]"

text \<open>
  \<^verbatim>\<open>_match_abbrev(s, wordmap)\<close>: an exact key, or the only key that starts with \<open>s\<close>;
  otherwise \<^verbatim>\<open>BadOptionError\<close> or \<^verbatim>\<open>AmbiguousOptionError\<close>, returned as its message.
\<close>

definition op_match_abbrev :: "string \<Rightarrow> string + string \<times> option_id" where
  "op_match_abbrev s =
     (case [e \<leftarrow> long_opt. fst e = s] of
        e # _ \<Rightarrow> Inr e
      | [] \<Rightarrow>
          (case [e \<leftarrow> long_opt. prefix s (fst e)] of
             [e] \<Rightarrow> Inr e
           | [] \<Rightarrow> Inl (''no such option: '' @ s)
           | possibilities \<Rightarrow>
               Inl (''ambiguous option: '' @ s @ '' ('' @
                    join_str '', '' (map fst possibilities) @ ''?)'')))"

text \<open>
  \<^verbatim>\<open>_parse_num(val, int)\<close>: the radix is chosen from the first characters, and the
  prefix \<^verbatim>\<open>0b\<close> is removed by hand.
\<close>

definition op_parse_int :: "runtime \<Rightarrow> string \<Rightarrow> int option" where
  "op_parse_int rt val =
     (if take 2 val = ''0x'' \<or> take 2 val = ''0X'' then py_int rt val 16
      else if take 2 val = ''0b'' \<or> take 2 val = ''0B'' then
        py_int rt (if drop 2 val = [] then ''0'' else drop 2 val) 2
      else if take 1 val = ''0'' then py_int rt val 8
      else py_int rt val 10)"

text \<open>
  \<^verbatim>\<open>option.process(opt, value, values, parser)\<close> for an option with a value: \<^verbatim>\<open>-o\<close> stores
  the string, \<^verbatim>\<open>--verbosity\<close> converts it to an integer first.
\<close>

definition op_process_value ::
  "runtime \<Rightarrow> value_option \<Rightarrow> string \<Rightarrow> string \<Rightarrow> values \<Rightarrow> values parse_result" where
  "op_process_value rt option opt val vals =
     (case option of
        OptOutput \<Rightarrow> Done (vals\<lparr>v_output := Some val\<rparr>)
      | OptVerbosity \<Rightarrow>
          (case op_parse_int rt val of
             None \<Rightarrow> Usage (''option '' @ opt @ '': invalid integer value: '' @ py_repr rt val)
           | Some n \<Rightarrow> Done (vals\<lparr>v_verbosity := n\<rparr>)))"

text \<open>
  \<^verbatim>\<open>option.process\<close> for an option without a value: \<^verbatim>\<open>store_true\<close> for \<^verbatim>\<open>--deps\<close> and
  \<^verbatim>\<open>--inorder\<close>, \<^verbatim>\<open>store_const\<close> 0 for \<^verbatim>\<open>-q\<close>, and \<^verbatim>\<open>count\<close> for \<^verbatim>\<open>-v\<close>, which is
  \<^verbatim>\<open>setattr(values, dest, values.ensure_value(dest, 0) + 1)\<close> on a destination that is
  never \<^verbatim>\<open>None\<close> here.
\<close>

definition op_process_flag :: "flag_option \<Rightarrow> values \<Rightarrow> values parse_result" where
  "op_process_flag option vals =
     (case option of
        OptHelp \<Rightarrow> Help
      | OptDeps \<Rightarrow> Done (vals\<lparr>v_just_deps := True\<rparr>)
      | OptInorder \<Rightarrow> Done (vals\<lparr>v_in_order := Some True\<rparr>)
      | OptQuiet \<Rightarrow> Done (vals\<lparr>v_verbosity := 0\<rparr>)
      | OptVerbose \<Rightarrow> Done (vals\<lparr>v_verbosity := v_verbosity vals + 1\<rparr>))"

definition with_rargs ::
  "string list \<Rightarrow> values parse_result \<Rightarrow> (string list \<times> values) parse_result" where
  "with_rargs rargs r =
     (case r of Done vals \<Rightarrow> Done (rargs, vals) | Usage msg \<Rightarrow> Usage msg | Help \<Rightarrow> Help)"

text \<open>
  \<^verbatim>\<open>_process_long_opt\<close>, after \<^verbatim>\<open>arg = rargs.pop(0)\<close>: a value attached with \<^verbatim>\<open>=\<close> is
  put back in front of the remaining arguments; an option that takes a value pops
  the next argument, whatever it looks like.
\<close>

definition op_process_long_opt ::
  "runtime \<Rightarrow> string \<Rightarrow> string list \<Rightarrow> values \<Rightarrow> (string list \<times> values) parse_result" where
  "op_process_long_opt rt arg rargs vals =
     (let had_explicit_value = (CHR ''='' \<in> set arg);
          opt = (if had_explicit_value then takeWhile (\<lambda>c. c \<noteq> CHR ''='') arg else arg);
          rargs1 = (if had_explicit_value
                    then tl (dropWhile (\<lambda>c. c \<noteq> CHR ''='') arg) # rargs else rargs)
      in case op_match_abbrev opt of
           Inl msg \<Rightarrow> Usage msg
         | Inr (name, Valued option) \<Rightarrow>
             (case rargs1 of
                [] \<Rightarrow> Usage (name @ '' option requires 1 argument'')
              | val # rargs2 \<Rightarrow> with_rargs rargs2 (op_process_value rt option name val vals))
         | Inr (name, Flag option) \<Rightarrow>
             if had_explicit_value then Usage (name @ '' option does not take a value'')
             else with_rargs rargs1 (op_process_flag option vals))"

text \<open>
  \<^verbatim>\<open>_process_short_opts\<close> on the characters after the dash: an option that takes a value
  takes the rest of the cluster when there is one (and stops), else the next argument.
\<close>

fun op_process_short_opts ::
  "runtime \<Rightarrow> string \<Rightarrow> string list \<Rightarrow> values \<Rightarrow> (string list \<times> values) parse_result" where
  "op_process_short_opts rt [] rargs vals = Done (rargs, vals)"
| "op_process_short_opts rt (ch # chs) rargs vals =
     (case short_opt ch of
        None \<Rightarrow> Usage (''no such option: -'' @ [ch])
      | Some (Valued option) \<Rightarrow>
          (case (if chs \<noteq> [] then chs # rargs else rargs) of
             [] \<Rightarrow> Usage (''-'' @ [ch] @ '' option requires 1 argument'')
           | val # rargs2 \<Rightarrow>
               with_rargs rargs2 (op_process_value rt option (''-'' @ [ch]) val vals))
      | Some (Flag option) \<Rightarrow>
          (case op_process_flag option vals of
             Done vals' \<Rightarrow> op_process_short_opts rt chs rargs vals'
           | Usage msg \<Rightarrow> Usage msg
           | Help \<Rightarrow> Help))"

text \<open>
  \<^verbatim>\<open>_process_args(largs, rargs, values)\<close> with interspersed arguments allowed: \<^verbatim>\<open>--\<close> ends
  the options, an argument that starts with \<^verbatim>\<open>--\<close> is a long option, one that starts
  with \<^verbatim>\<open>-\<close> and is longer than the dash is a cluster of short options, anything else
  is positional. Every pass removes at least one argument.
\<close>

function op_process_args ::
  "runtime \<Rightarrow> string list \<Rightarrow> string list \<Rightarrow> values \<Rightarrow>
     (string list \<times> string list \<times> values) parse_result" where
  "op_process_args rt largs [] vals = Done (largs, [], vals)"
| "op_process_args rt largs (arg # rargs) vals =
     (if arg = ''--'' then Done (largs, rargs, vals)
      else if take 2 arg = ''--'' then
        (case op_process_long_opt rt arg rargs vals of
           Done (rargs', vals') \<Rightarrow> op_process_args rt largs rargs' vals'
         | Usage msg \<Rightarrow> Usage msg
         | Help \<Rightarrow> Help)
      else if take 1 arg = ''-'' \<and> length arg > 1 then
        (case op_process_short_opts rt (drop 1 arg) rargs vals of
           Done (rargs', vals') \<Rightarrow> op_process_args rt largs rargs' vals'
         | Usage msg \<Rightarrow> Usage msg
         | Help \<Rightarrow> Help)
      else op_process_args rt (largs @ [arg]) rargs vals)"
  by pat_completeness auto
termination
proof -
  have long: "length rargs' \<le> length rargs"
    if "op_process_long_opt rt arg rargs vals = Done (rargs', vals')"
    for rt arg rargs vals rargs' vals'
    using that
    by (auto simp: op_process_long_opt_def with_rargs_def Let_def
             split: sum.splits option_id.splits list.splits if_splits parse_result.splits)
  have short: "length rargs' \<le> length rargs"
    if "op_process_short_opts rt chs rargs vals = Done (rargs', vals')"
    for rt chs rargs vals rargs' vals'
    using that
    by (induction rt chs rargs vals rule: op_process_short_opts.induct)
       (auto simp: with_rargs_def
             split: option.splits option_id.splits list.splits if_splits parse_result.splits)
  show ?thesis
    by (relation "measure (\<lambda>(rt, largs, rargs, vals). length rargs)")
       (auto dest: long short)
qed

text \<open>
  \<^verbatim>\<open>
  class ColoredOptionParser(optparse.OptionParser):
      def error(self, message):
          msg = colorize(message, "red")
          optparse.OptionParser.error(self, msg)
  \<close>
  \<^verbatim>\<open>colorize\<close> looks at the stream \<^verbatim>\<open>sys.stderr\<close> was at import; the library prints the
  usage line and \<^verbatim>\<open>"%s: error: %s\n"\<close> to the current \<^verbatim>\<open>sys.stderr\<close> and calls
  \<^verbatim>\<open>sys.exit(2)\<close>.
\<close>

definition parser_error :: "runtime \<Rightarrow> string \<Rightarrow> world \<Rightarrow> (py_exc + 'a) \<times> world" where
  "parser_error rt text w =
     (case colorize text (Some ''red'') (objs w (stderr_at_import w)) (Some []) of
        Inl e \<Rightarrow> (Inl e, w)
      | Inr msg \<Rightarrow>
          (Inl (SystemExit 2),
           py_write (sys_stderr w) (prog_name rt @ '': error: '' @ msg @ [CHR 0x0A])
             (py_print [''Usage: '' @ prog_name rt @ '' [options] <input>'' @ [CHR 0x0A]]
                (sys_stderr w) w)))"

text \<open>
  \<^verbatim>\<open>parser.parse_args(args)\<close>: the values and the positional arguments
  \<^verbatim>\<open>largs + rargs\<close>; the help action writes the help text to \<^verbatim>\<open>sys.stdout\<close> and exits
  with status 0.
\<close>

definition parse_args ::
  "runtime \<Rightarrow> string list \<Rightarrow> world \<Rightarrow> (py_exc + values \<times> string list) \<times> world" where
  "parse_args rt args w =
     (case op_process_args rt [] args default_values of
        Done (largs, rargs, vals) \<Rightarrow> (Inr (vals, largs @ rargs), w)
      | Usage msg \<Rightarrow> parser_error rt msg w
      | Help \<Rightarrow> (Inl (SystemExit 0), py_write (sys_stdout w) (help_text rt) w))"


section \<open>The argument resolver: \<^verbatim>\<open>process_args\<close>\<close>

text \<open>The dictionary \<^verbatim>\<open>vars(options)\<close> that \<^verbatim>\<open>process_args\<close> returns.\<close>

record options =
  o_output :: "string option"
  o_just_deps :: bool
  o_in_order :: bool
  o_verbosity :: int
  o_mappings :: "string \<rightharpoonup> string"

definition inorder_notice :: string where
  "inorder_notice =
     ''xacro: in-order processing became default in ROS Melodic. You can drop the option.''"

text \<open>
  \<^verbatim>\<open>
    try:
        mappings = load_mappings(argv)
        filtered_args = [a for a in argv if REMAP not in a]
    except ImportError as e: ...
    parser.set_defaults(just_deps=False, verbosity=1)
    (options, pos_args) = parser.parse_args(filtered_args)
    if options.in_order:
        message("xacro: in-order processing became default ...")
    options.in_order = True
    if len(pos_args) != 1:
        if require_input:
            parser.error("expected exactly one input file as argument")
        else:
            pos_args = [None]
    options.mappings = mappings
    return vars(options), pos_args[0]
  \<close>
  \<^verbatim>\<open>load_mappings\<close> raises nothing but \<^verbatim>\<open>RuntimeError\<close>, so the handler of \<^verbatim>\<open>ImportError\<close>
  is never entered and the exception leaves \<^verbatim>\<open>process_args\<close>.
\<close>

definition process_args ::
  "runtime \<Rightarrow> string list \<Rightarrow> bool \<Rightarrow> world \<Rightarrow>
     (py_exc + options \<times> string option) \<times> world" where
  "process_args rt argv require_input w =
     (case load_mappings argv of
        Inl e \<Rightarrow> (Inl e, w)
      | Inr mappings \<Rightarrow>
          (case parse_args rt (filtered_args argv) w of
             (Inl e, w1) \<Rightarrow> (Inl e, w1)
           | (Inr (vals, pos_args), w1) \<Rightarrow>
               (case (if v_in_order vals = Some True
                      then message inorder_notice [] no_kwargs w1 else (Inr (), w1)) of
                  (Inl e, w2) \<Rightarrow> (Inl e, w2)
                | (Inr u, w2) \<Rightarrow>
                    (let opts = \<lparr>o_output = v_output vals, o_just_deps = v_just_deps vals,
                                 o_in_order = True, o_verbosity = v_verbosity vals,
                                 o_mappings = mappings\<rparr>
                     in case pos_args of
                          [input] \<Rightarrow> (Inr (opts, Some input), w2)
                        | _ \<Rightarrow>
                            if require_input
                            then parser_error rt
                                   ''expected exactly one input file as argument'' w2
                            else (Inr (opts, None), w2)))))"


section \<open>The capturing entry point: \<^verbatim>\<open>process\<close>\<close>

text \<open>The dictionary \<^verbatim>\<open>process\<close> builds for the processing engine.\<close>

record process_opts =
  p_output :: "string option"
  p_just_deps :: bool
  p_xacro_ns :: bool
  p_verbosity :: int
  p_mappings :: "string \<rightharpoonup> string"

text \<open>
  The processing engine \<^verbatim>\<open>process_file.process\<close> is a module of the repository outside
  this slice. It is a parameter of the model: any function of the input file name,
  the options and the interpreter state that raises or returns.
\<close>

type_synonym engine = "string \<Rightarrow> process_opts \<Rightarrow> world \<Rightarrow> (py_exc + unit) \<times> world"

text \<open>\<^verbatim>\<open>old, sys.stdout = sys.stdout, StringIO()\<close>: a new object, bound to \<^verbatim>\<open>sys.stdout\<close>.\<close>

definition redirect_stdout :: "world \<Rightarrow> world" where
  "redirect_stdout w =
     w\<lparr>objs := (objs w)(next_id w := new_StringIO), next_id := Suc (next_id w),
       sys_stdout := next_id w\<rparr>"

text \<open>
  \<^verbatim>\<open>
    old, sys.stdout = sys.stdout, StringIO()
    process_file.process(input_file_name,
        dict(output=None, just_deps=just_deps, xacro_ns=xacro_ns,
             verbosity=verbosity, mappings=mappings))
    sys.stdout.seek(0)
    result = sys.stdout.read()
    sys.stdout = old
    return result
  \<close>
  \<^verbatim>\<open>seek\<close> and \<^verbatim>\<open>read\<close> go to whatever \<^verbatim>\<open>sys.stdout\<close> is bound to when the engine has
  returned. An exception leaves the function before the binding is restored.
\<close>

definition process ::
  "engine \<Rightarrow> string \<Rightarrow> bool \<Rightarrow> bool \<Rightarrow> int \<Rightarrow> (string \<rightharpoonup> string) \<Rightarrow> world \<Rightarrow>
     (py_exc + string) \<times> world" where
  "process engine input_file_name just_deps xacro_ns verbosity mappings w =
     (let old = sys_stdout w;
          w1 = redirect_stdout w
      in case engine input_file_name
                \<lparr>p_output = None, p_just_deps = just_deps, p_xacro_ns = xacro_ns,
                 p_verbosity = verbosity, p_mappings = mappings\<rparr> w1 of
           (Inl e, w2) \<Rightarrow> (Inl e, w2)
         | (Inr u, w2) \<Rightarrow>
             (case stream_seek0 (objs w2 (sys_stdout w2)) of
                Inl e \<Rightarrow> (Inl e, w2)
              | Inr s1 \<Rightarrow>
                  (case stream_read s1 of
                     Inl e \<Rightarrow> (Inl e, w2\<lparr>objs := (objs w2)(sys_stdout w2 := s1)\<rparr>)
                   | Inr (result, s2) \<Rightarrow>
                       (Inr result,
                        w2\<lparr>objs := (objs w2)(sys_stdout w2 := s2), sys_stdout := old\<rparr>))))"


section \<open>Vocabulary of the properties\<close>

text \<open>
  An argument that \<^verbatim>\<open>_process_args\<close> takes as positional: it does not start with \<^verbatim>\<open>--\<close>
  and is not a dash followed by more characters.
\<close>

definition positional_arg :: "string \<Rightarrow> bool" where
  "positional_arg arg = (take 2 arg \<noteq> ''--'' \<and> \<not> (take 1 arg = ''-'' \<and> length arg > 1))"

text \<open>
  The verbosity flags as written on the command line: \<^verbatim>\<open>-q\<close>, \<^verbatim>\<open>-v\<close> and
  \<^verbatim>\<open>--verbosity LEVEL\<close>, where \<open>Level l n\<close> is the token \<open>l\<close> that denotes the integer
  \<open>n\<close>. \<open>vflag_apply\<close> is the effect the specification gives each flag on the verbosity
  held so far.
\<close>

datatype vflag = Quiet | Verbose | Level string int

fun vflag_tokens :: "vflag \<Rightarrow> string list" where
  "vflag_tokens Quiet = [''-q'']"
| "vflag_tokens Verbose = [''-v'']"
| "vflag_tokens (Level l n) = [''--verbosity'', l]"

fun vflag_apply :: "int \<Rightarrow> vflag \<Rightarrow> int" where
  "vflag_apply v Quiet = 0"
| "vflag_apply v Verbose = v + 1"
| "vflag_apply v (Level l n) = n"

text \<open>
  A level token is well formed when the library's integer conversion gives its integer
  and it is not taken for a remap.
\<close>

fun vflag_ok :: "runtime \<Rightarrow> vflag \<Rightarrow> bool" where
  "vflag_ok rt (Level l n) = (op_parse_int rt l = Some n \<and> \<not> str_contains REMAP l)"
| "vflag_ok rt f = True"

text \<open>
  A host, an interpreter state and an engine on which the model is evaluated: the
  program is called \<^verbatim>\<open>xacro\<close>, object 1 is the standard output, object 2 the standard
  error and a terminal, and the engine prints two lines.
\<close>

definition demo_runtime :: runtime where
  "demo_runtime =
     \<lparr>prog_name = ''xacro'', help_text = ''Usage: xacro [options] <input>'',
      py_int = (\<lambda>s radix. if s = ''3'' \<and> radix = 10 then Some 3 else None),
      py_repr = (\<lambda>s. [CHR 0x27] @ s @ [CHR 0x27])\<rparr>"

definition demo_world :: world where
  "demo_world =
     \<lparr>objs = (\<lambda>i. \<lparr>isatty = Some (i = 2), seekable = False, readable = False,
                    buffer = [], pos = 0\<rparr>),
      next_id = 3, sys_stdout = 1, sys_stderr = 2, stderr_at_import = 2\<rparr>"

definition demo_engine :: engine where
  "demo_engine input_file_name opts w =
     (Inr (),
      py_print [''<robot/>''] (sys_stdout w)
        (py_print [''<!-- '' @ input_file_name @ '' -->''] (sys_stdout w) w))"


section \<open>Facts about the string primitives\<close>

lemma split_str_nonempty: "split_str sep s \<noteq> []"
  by (induction sep s rule: split_str.induct) (auto split: list.splits)

lemma str_contains_iff: "str_contains sep s \<longleftrightarrow> (\<exists>pre post. s = pre @ sep @ post)"
proof (induction s)
  case Nil
  then show ?case by auto
next
  case (Cons c cs)
  show ?case
  proof
    assume "str_contains sep (c # cs)"
    then consider "prefix sep (c # cs)" | "str_contains sep cs" by auto
    then show "\<exists>pre post. c # cs = pre @ sep @ post"
    proof cases
      case 1
      then obtain post where "c # cs = sep @ post" by (auto simp: prefix_def)
      then have "c # cs = [] @ sep @ post" by simp
      then show ?thesis by blast
    next
      case 2
      with Cons obtain pre post where "cs = pre @ sep @ post" by auto
      then have "c # cs = (c # pre) @ sep @ post" by simp
      then show ?thesis by blast
    qed
  next
    assume "\<exists>pre post. c # cs = pre @ sep @ post"
    then obtain pre post where e: "c # cs = pre @ sep @ post" by blast
    show "str_contains sep (c # cs)"
    proof (cases pre)
      case Nil
      with e have "prefix sep (c # cs)" by (simp add: prefix_def)
      then show ?thesis by simp
    next
      case (Cons a pre')
      with e have "cs = pre' @ sep @ post" by simp
      with Cons.IH have "str_contains sep cs" by blast
      then show ?thesis by simp
    qed
  qed
qed

lemma str_contains_occurrences: "str_contains sep s \<longleftrightarrow> 0 < occurrences sep s"
  by (induction s) auto

lemma prefix_REMAP: "prefix REMAP s \<longleftrightarrow> (\<exists>t. s = CHR '':'' # CHR ''='' # t)"
  by (cases s; cases "tl s") (auto simp: REMAP_def)

text \<open>
  The delimiter cannot overlap itself, so splitting on it yields one part more than it
  has occurrences.
\<close>

lemma split_str_REMAP_length: "length (split_str REMAP s) = Suc (occurrences REMAP s)"
proof (induction REMAP s rule: split_str.induct)
  case 1
  then show ?case by (simp add: REMAP_def)
next
  case (2 c cs)
  show ?case
  proof (cases "prefix REMAP (c # cs)")
    case True
    then obtain t where t: "c = CHR '':''" "cs = CHR ''='' # t" by (auto simp: prefix_REMAP)
    have d: "drop (length REMAP - 1) cs = t" using t by (simp add: REMAP_def)
    have "length (split_str REMAP t) = Suc (occurrences REMAP t)"
      using "2.hyps"(1)[OF True] d by simp
    moreover have "\<not> prefix REMAP cs" using t by (simp add: REMAP_def)
    ultimately show ?thesis using True d t by simp
  next
    case False
    with "2.hyps"(2) have "length (split_str REMAP cs) = Suc (occurrences REMAP cs)" by simp
    with False show ?thesis by (auto split: list.splits)
  qed
qed

text \<open>Joining the parts with the separator gives the text back.\<close>

lemma join_split: "sep \<noteq> [] \<Longrightarrow> join_str sep (split_str sep s) = s"
proof (induction sep s rule: split_str.induct)
  case (1 sep)
  then show ?case by simp
next
  case (2 sep c cs)
  show ?case
  proof (cases "prefix sep (c # cs)")
    case True
    then obtain post where p: "c # cs = sep @ post" by (auto simp: prefix_def)
    from 2(3) obtain a sep' where s: "sep = a # sep'" by (cases sep) auto
    with p have "cs = sep' @ post" by simp
    then have d: "drop (length sep - 1) cs = post" using s by simp
    obtain q qs where q: "split_str sep post = q # qs"
      using split_str_nonempty by (cases "split_str sep post") auto
    have "split_str sep (c # cs) = [] # q # qs" using True d q by simp
    moreover have "join_str sep (q # qs) = post" using "2.IH"(1)[OF True 2(3)] d q by simp
    ultimately show ?thesis using p by simp
  next
    case False
    obtain q qs where q: "split_str sep cs = q # qs"
      using split_str_nonempty by (cases "split_str sep cs") auto
    with "2.IH"(2)[OF False 2(3)] False show ?thesis
      by (cases qs) auto
  qed
qed


section \<open>When the remap extractor raises\<close>

lemma bad_remap_occurrences: "bad_remap arg \<longleftrightarrow> 2 \<le> occurrences REMAP arg"
  by (auto simp: bad_remap_def split_str_REMAP_length str_contains_occurrences)

lemma load_mapping_arg_bad:
  "bad_remap arg \<Longrightarrow> load_mapping_arg m arg = Inl (RuntimeError (invalid_remap_msg arg))"
  by (auto simp: bad_remap_def load_mapping_arg_def py_split_def REMAP_def
           split: list.splits)

lemma load_mapping_arg_good:
  "\<not> bad_remap arg \<Longrightarrow> \<exists>m'. load_mapping_arg m arg = Inr m'"
  by (auto simp: bad_remap_def load_mapping_arg_def py_split_def REMAP_def
           split: list.splits)

lemma load_mapping_arg_isl: "isl (load_mapping_arg m arg) \<longleftrightarrow> bad_remap arg"
  using load_mapping_arg_bad[of arg m] load_mapping_arg_good[of arg m]
  by (cases "bad_remap arg") auto

lemma load_mappings_loop_isl:
  "isl (load_mappings_loop m argv) \<longleftrightarrow> (\<exists>arg\<in>set argv. bad_remap arg)"
proof (induction argv arbitrary: m)
  case Nil
  then show ?case by simp
next
  case (Cons a argv)
  show ?case
  proof (cases "bad_remap a")
    case True
    then show ?thesis by (simp add: load_mapping_arg_bad)
  next
    case False
    then obtain m' where "load_mapping_arg m a = Inr m'"
      using load_mapping_arg_good by blast
    with False Cons.IH[of m'] show ?thesis by simp
  qed
qed

text \<open>
  Claim C10. \<^verbatim>\<open>load_mappings\<close> raises exactly when some argument contains the delimiter
  \<^verbatim>\<open>:=\<close> and its split on every occurrence of the delimiter has a number of parts other
  than two, which is the case exactly when the argument has two or more occurrences of
  the delimiter; an argument with exactly one occurrence never makes the loop body
  raise, whatever its trimmed parts are.
\<close>

theorem load_mappings_raises_iff:
  "(isl (load_mappings argv) \<longleftrightarrow>
      (\<exists>arg\<in>set argv. str_contains REMAP arg \<and> length (split_str REMAP arg) \<noteq> 2))
   \<and> (\<forall>arg. str_contains REMAP arg \<longrightarrow>
         (length (split_str REMAP arg) \<noteq> 2 \<longleftrightarrow> 2 \<le> occurrences REMAP arg))
   \<and> (\<forall>arg m. occurrences REMAP arg = 1 \<longrightarrow> \<not> isl (load_mapping_arg m arg))"
proof (intro conjI allI impI)
  show "isl (load_mappings argv) \<longleftrightarrow>
      (\<exists>arg\<in>set argv. str_contains REMAP arg \<and> length (split_str REMAP arg) \<noteq> 2)"
    using load_mappings_loop_isl[of Map.empty argv]
    by (simp add: load_mappings_def bad_remap_def)
next
  fix arg
  assume "str_contains REMAP arg"
  then show "length (split_str REMAP arg) \<noteq> 2 \<longleftrightarrow> 2 \<le> occurrences REMAP arg"
    using bad_remap_occurrences[of arg] by (simp add: bad_remap_def)
next
  fix arg m
  assume "occurrences REMAP arg = 1"
  then have "\<not> bad_remap arg" by (simp add: bad_remap_occurrences)
  then show "\<not> isl (load_mapping_arg m arg)" by (simp add: load_mapping_arg_isl)
qed

theorem load_mappings_raises_iff_witness:
  "isl (load_mappings [''robot.xacro'', ''a:=b:=c''])
   \<and> \<not> isl (load_mappings ['':=bar'', ''foo:='', ''robot.xacro''])
   \<and> occurrences REMAP ''a:=b:=c'' = 2
   \<and> \<not> isl (load_mapping_arg Map.empty '':=bar'')"
proof -
  have o1: "occurrences REMAP '':=bar'' = 1" by (simp add: REMAP_def)
  have o2: "occurrences REMAP ''a:=b:=c'' = 2" by (simp add: REMAP_def)
  have c1: "str_contains REMAP ''a:=b:=c''" by (simp add: REMAP_def)
  have l1: "length (split_str REMAP ''a:=b:=c'') \<noteq> 2" by (simp add: REMAP_def)
  have l2: "length (split_str REMAP '':=bar'') = 2" by (simp add: REMAP_def)
  have l3: "length (split_str REMAP ''foo:='') = 2" by (simp add: REMAP_def)
  have l4: "\<not> str_contains REMAP ''robot.xacro''" by (simp add: REMAP_def)
  have "isl (load_mappings [''robot.xacro'', ''a:=b:=c''])"
    using load_mappings_raises_iff[of "[''robot.xacro'', ''a:=b:=c'']"] c1 l1 by simp
  moreover have "\<not> isl (load_mappings ['':=bar'', ''foo:='', ''robot.xacro''])"
    using load_mappings_raises_iff[of "['':=bar'', ''foo:='', ''robot.xacro'']"] l2 l3 l4
    by simp
  moreover have "\<not> isl (load_mapping_arg Map.empty '':=bar'')"
    using load_mappings_raises_iff[of "[]"] o1 by blast
  ultimately show ?thesis using o2 by simp
qed


section \<open>The parts of a split\<close>

lemma split_str_hd_prefix: "prefix (hd (split_str sep s)) s"
  by (induction sep s rule: split_str.induct) (auto split: list.splits)

lemma split_str_parts_free:
  "sep \<noteq> [] \<Longrightarrow> p \<in> set (split_str sep s) \<Longrightarrow> \<not> str_contains sep p"
proof (induction sep s arbitrary: p rule: split_str.induct)
  case (1 sep)
  then show ?case by simp
next
  case (2 sep c cs)
  show ?case
  proof (cases "prefix sep (c # cs)")
    case True
    with 2(4) consider "p = []" | "p \<in> set (split_str sep (drop (length sep - 1) cs))" by auto
    then show ?thesis
    proof cases
      case 1
      with 2(3) show ?thesis by simp
    next
      case 2
      then show ?thesis using "2.IH"(1)[OF True "2.prems"(1)] by blast
    qed
  next
    case False
    obtain q qs where q: "split_str sep cs = q # qs"
      using split_str_nonempty by (cases "split_str sep cs") auto
    with False 2(4) consider "p = c # q" | "p \<in> set qs" by auto
    then show ?thesis
    proof cases
      case 1
      have "prefix q cs" using split_str_hd_prefix[of sep cs] q by simp
      then have "prefix sep (c # q) \<Longrightarrow> prefix sep (c # cs)"
        by (meson Cons_prefix_Cons prefix_order.trans)
      moreover have "\<not> str_contains sep q" using "2.IH"(2)[OF False "2.prems"(1), of q] q by simp
      ultimately show ?thesis using 1 False by auto
    next
      case 2
      then show ?thesis using "2.IH"(2)[OF False "2.prems"(1), of p] q by simp
    qed
  qed
qed

lemma split_REMAP_two:
  assumes "split_str REMAP arg = [s, d]"
  shows "arg = s @ REMAP @ d" "\<not> str_contains REMAP s" "\<not> str_contains REMAP d" "str_contains REMAP arg"
proof -
  have ne: "REMAP \<noteq> []" by (simp add: REMAP_def)
  show "arg = s @ REMAP @ d" using join_split[OF ne, of arg] assms by simp
  then show "str_contains REMAP arg" unfolding str_contains_iff by blast
  show "\<not> str_contains REMAP s" using split_str_parts_free[OF ne, of s arg] assms by simp
  show "\<not> str_contains REMAP d" using split_str_parts_free[OF ne, of d arg] assms by simp
qed

section \<open>What the remap extractor does with one token\<close>

lemma load_mapping_arg_two:
  assumes "split_str REMAP arg = [s, d]"
  shows "load_mapping_arg m arg =
     Inr (if strip s \<noteq> [] \<and> strip d \<noteq> [] \<and> \<not> is_param_assignment (strip s)
          then m(strip s \<mapsto> strip d) else m)"
  using assms split_REMAP_two(4)[OF assms]
  by (simp add: load_mapping_arg_def py_split_def REMAP_def)

lemma one_occurrence_two_parts:
  assumes "occurrences REMAP arg = 1"
  shows "\<exists>s d. split_str REMAP arg = [s, d]"
proof -
  have "length (split_str REMAP arg) = 2" using assms by (simp add: split_str_REMAP_length)
  then show ?thesis by (auto simp: length_Suc_conv numeral_2_eq_2)
qed

lemma load_mapping_arg_plain: "\<not> str_contains REMAP arg \<Longrightarrow> load_mapping_arg m arg = Inr m"
  by (simp add: load_mapping_arg_def)

lemma load_mappings_loop_prefix_good:
  "\<forall>a\<in>set pre. \<not> bad_remap a \<Longrightarrow>
     \<exists>m'. load_mappings_loop m (pre @ rest) = load_mappings_loop m' rest"
proof (induction pre arbitrary: m)
  case Nil
  then show ?case by auto
next
  case (Cons a pre)
  then obtain m1 where "load_mapping_arg m a = Inr m1"
    using load_mapping_arg_good[of a m] by auto
  with Cons show ?case by simp
qed

lemma load_mappings_first_bad:
  assumes "\<forall>a\<in>set pre. \<not> bad_remap a" and "bad_remap arg"
  shows "load_mappings (pre @ arg # post) = Inl (RuntimeError (invalid_remap_msg arg))"
proof -
  obtain m' where "load_mappings_loop Map.empty (pre @ arg # post) = load_mappings_loop m' (arg # post)"
    using load_mappings_loop_prefix_good[OF assms(1)] by blast
  then show ?thesis using assms(2) by (simp add: load_mappings_def load_mapping_arg_bad)
qed

lemma process_args_load_error:
  "load_mappings argv = Inl e \<Longrightarrow> process_args rt argv require_input w = (Inl e, w)"
  by (simp add: process_args_def)

text \<open>
  Claim C2, as the code has it. A token that contains the delimiter \<^verbatim>\<open>:=\<close> and whose
  split on every occurrence of the delimiter does not have exactly two parts makes
  \<^verbatim>\<open>load_mappings\<close> raise the \<^verbatim>\<open>RuntimeError\<close> that names the token (the first such token
  of the vector), and \<^verbatim>\<open>process_args\<close> ends with that exception, the interpreter state
  untouched and no mapping returned. A token with exactly two parts of which one is
  empty after trimming, such as \<^verbatim>\<open>:=bar\<close> or \<^verbatim>\<open>foo:=\<close>, does not raise: the loop body
  leaves the dictionary as it is.
\<close>

theorem invalid_remap_aborts:
  assumes "\<forall>a\<in>set pre. \<not> (str_contains REMAP a \<and> length (split_str REMAP a) \<noteq> 2)"
      and "str_contains REMAP arg"
  shows "(length (split_str REMAP arg) \<noteq> 2 \<longrightarrow>
            load_mappings (pre @ arg # post) = Inl (RuntimeError (invalid_remap_msg arg))
          \<and> process_args rt (pre @ arg # post) require_input w
              = (Inl (RuntimeError (invalid_remap_msg arg)), w))
       \<and> (\<forall>s d. split_str REMAP arg = [s, d] \<and> (strip s = [] \<or> strip d = []) \<longrightarrow>
            load_mapping_arg m arg = Inr m)"
proof (intro conjI impI allI)
  assume "length (split_str REMAP arg) \<noteq> 2"
  with assms have "load_mappings (pre @ arg # post) = Inl (RuntimeError (invalid_remap_msg arg))"
    by (intro load_mappings_first_bad) (auto simp: bad_remap_def)
  then show "load_mappings (pre @ arg # post) = Inl (RuntimeError (invalid_remap_msg arg))"
    and "process_args rt (pre @ arg # post) require_input w
              = (Inl (RuntimeError (invalid_remap_msg arg)), w)"
    by (simp_all add: process_args_load_error)
next
  fix s d
  assume "split_str REMAP arg = [s, d] \<and> (strip s = [] \<or> strip d = [])"
  then show "load_mapping_arg m arg = Inr m"
    using load_mapping_arg_two[of arg s d m] by auto
qed

text \<open>
  The tokens \<^verbatim>\<open>:=bar\<close> and \<^verbatim>\<open>foo:=\<close> of claim C2 raise nothing.
\<close>

theorem invalid_remap_empty_side_counterexample:
  "\<not> isl (load_mappings ['':=bar'']) \<and> \<not> isl (load_mappings [''foo:=''])"
  by (simp add: load_mappings_def load_mapping_arg_def py_split_def REMAP_def strip_def isspace_def)

theorem invalid_remap_aborts_witness:
  "load_mappings [''robot.xacro'', ''a:=b:=c'', ''x:=y''] = Inl (RuntimeError (invalid_remap_msg ''a:=b:=c''))
   \<and> load_mapping_arg [''k'' \<mapsto> ''v''] '':=bar'' = Inr [''k'' \<mapsto> ''v'']"
proof -
  have g: "\<forall>a\<in>set [''robot.xacro'']. \<not> (str_contains REMAP a \<and> length (split_str REMAP a) \<noteq> 2)"
    by (simp add: REMAP_def)
  have c1: "str_contains REMAP ''a:=b:=c''" by (simp add: REMAP_def)
  have l1: "length (split_str REMAP ''a:=b:=c'') \<noteq> 2" by (simp add: REMAP_def)
  have c2: "str_contains REMAP '':=bar''" by (simp add: REMAP_def)
  have s2: "split_str REMAP '':=bar'' = ['''', ''bar'']" by (simp add: REMAP_def)
  have st: "strip '''' = ''''" by (simp add: strip_def)
  have "load_mappings ([''robot.xacro''] @ ''a:=b:=c'' # [''x:=y'']) = Inl (RuntimeError (invalid_remap_msg ''a:=b:=c''))"
    using invalid_remap_aborts[OF g c1] l1 by blast
  moreover have "load_mapping_arg [''k'' \<mapsto> ''v''] '':=bar'' = Inr [''k'' \<mapsto> ''v'']"
    using invalid_remap_aborts[where pre="[]" and arg="'':=bar''" and m="[''k'' \<mapsto> ''v'']"]
      c2 s2 st by simp
  ultimately show ?thesis by simp
qed

text \<open>
  Claim C3, as the code has it. \<^verbatim>\<open>arg.split(REMAP)\<close> splits on every occurrence of the
  delimiter. A token with exactly one occurrence is the source, the delimiter and the
  destination, neither part containing the delimiter, and both are trimmed; a token
  with more than one occurrence is rejected with the \<^verbatim>\<open>RuntimeError\<close>.
\<close>

theorem remap_split_every_occurrence:
  assumes "str_contains REMAP arg"
  shows "(occurrences REMAP arg = 1 \<longrightarrow>
            (\<exists>s d. split_str REMAP arg = [s, d] \<and> arg = s @ REMAP @ d
                 \<and> \<not> str_contains REMAP s \<and> \<not> str_contains REMAP d
                 \<and> load_mapping_arg m arg =
                     Inr (if strip s \<noteq> [] \<and> strip d \<noteq> [] \<and> \<not> is_param_assignment (strip s)
                          then m(strip s \<mapsto> strip d) else m)))
       \<and> (occurrences REMAP arg \<noteq> 1 \<longrightarrow>
            load_mapping_arg m arg = Inl (RuntimeError (invalid_remap_msg arg)))"
proof (intro conjI impI)
  assume "occurrences REMAP arg = 1"
  then obtain s d where sd: "split_str REMAP arg = [s, d]"
    using one_occurrence_two_parts by blast
  show "\<exists>s d. split_str REMAP arg = [s, d] \<and> arg = s @ REMAP @ d
                 \<and> \<not> str_contains REMAP s \<and> \<not> str_contains REMAP d
                 \<and> load_mapping_arg m arg =
                     Inr (if strip s \<noteq> [] \<and> strip d \<noteq> [] \<and> \<not> is_param_assignment (strip s)
                          then m(strip s \<mapsto> strip d) else m)"
    using sd split_REMAP_two[OF sd] load_mapping_arg_two[OF sd, of m] by blast
next
  assume "occurrences REMAP arg \<noteq> 1"
  with assms have "2 \<le> occurrences REMAP arg"
    by (simp add: str_contains_occurrences)
  then have "bad_remap arg" by (simp add: bad_remap_occurrences)
  then show "load_mapping_arg m arg = Inl (RuntimeError (invalid_remap_msg arg))"
    by (rule load_mapping_arg_bad)
qed

text \<open>
  The token \<^verbatim>\<open>a:=b:=c\<close> of claim C3 is not split at its first delimiter: it is rejected.
\<close>

theorem remap_split_first_occurrence_counterexample:
  "load_mappings [''a:=b:=c''] = Inl (RuntimeError (invalid_remap_msg ''a:=b:=c''))"
  by (simp add: load_mappings_def load_mapping_arg_def py_split_def REMAP_def)

theorem remap_split_every_occurrence_witness:
  "str_contains REMAP '' a := b '' \<and> occurrences REMAP '' a := b '' = 1
   \<and> load_mapping_arg Map.empty '' a := b '' = Inr [''a'' \<mapsto> ''b'']
   \<and> str_contains REMAP ''a:=b:=c'' \<and> occurrences REMAP ''a:=b:=c'' \<noteq> 1
   \<and> load_mapping_arg Map.empty ''a:=b:=c'' = Inl (RuntimeError (invalid_remap_msg ''a:=b:=c''))"
proof -
  have c1: "str_contains REMAP '' a := b ''" by (simp add: REMAP_def)
  have o1: "occurrences REMAP '' a := b '' = 1" by (simp add: REMAP_def)
  have c2: "str_contains REMAP ''a:=b:=c''" by (simp add: REMAP_def)
  have o2: "occurrences REMAP ''a:=b:=c'' \<noteq> 1" by (simp add: REMAP_def)
  have sp: "split_str REMAP '' a := b '' = ['' a '', '' b '']" by (simp add: REMAP_def)
  have st: "strip '' a '' = ''a''" "strip '' b '' = ''b''" by (simp_all add: strip_def isspace_def)
  have np: "\<not> is_param_assignment ''a''" by (simp add: is_param_assignment_def)
  have "load_mapping_arg Map.empty '' a := b '' = Inr [''a'' \<mapsto> ''b'']"
    using remap_split_every_occurrence[OF c1, of Map.empty] o1 sp st np by auto
  moreover have "load_mapping_arg Map.empty ''a:=b:=c'' = Inl (RuntimeError (invalid_remap_msg ''a:=b:=c''))"
    using remap_split_every_occurrence[OF c2, of Map.empty] o2 by blast
  ultimately show ?thesis using c1 o1 c2 o2 by blast
qed

lemma load_mapping_arg_no_param:
  "load_mapping_arg m arg = Inr m' \<Longrightarrow> is_param_assignment k \<Longrightarrow> m k = None \<Longrightarrow> m' k = None"
  by (auto simp: load_mapping_arg_def py_split_def split: if_splits list.splits)

lemma load_mappings_loop_no_param:
  "load_mappings_loop m argv = Inr m' \<Longrightarrow> is_param_assignment k \<Longrightarrow> m k = None \<Longrightarrow> m' k = None"
proof (induction argv arbitrary: m)
  case Nil
  then show ?case by simp
next
  case (Cons a argv)
  then show ?case
    by (auto split: sum.splits dest: load_mapping_arg_no_param)
qed

lemma filtered_args_drops: "str_contains REMAP a \<Longrightarrow> a \<notin> set (filtered_args argv)"
  by (simp add: filtered_args_def)

text \<open>
  Claim C4, as the code has it. For a token with exactly one delimiter: when the
  trimmed source has at least two characters, the first an underscore and the second
  not, the dictionary is left as it is; a trimmed source with two leading underscores
  is inserted when the trimmed destination is not empty, and so is the trimmed source
  that is the single character \<^verbatim>\<open>_\<close>. The token is not in the filtered argument list,
  and no dictionary that \<^verbatim>\<open>load_mappings\<close> returns has a parameter assignment as a key.
\<close>

theorem param_assignment_excluded:
  assumes "split_str REMAP arg = [s, d]"
  shows "(is_param_assignment (strip s) \<longrightarrow> load_mapping_arg m arg = Inr m)
       \<and> (strip d \<noteq> [] \<and> prefix ''__'' (strip s) \<longrightarrow>
            load_mapping_arg m arg = Inr (m(strip s \<mapsto> strip d)))
       \<and> (strip d \<noteq> [] \<and> strip s = ''_'' \<longrightarrow>
            load_mapping_arg m arg = Inr (m(''_'' \<mapsto> strip d)))
       \<and> arg \<notin> set (filtered_args argv)
       \<and> (\<forall>m' k. load_mappings argv = Inr m' \<and> is_param_assignment k \<longrightarrow> m' k = None)"
proof (intro conjI impI allI)
  assume "is_param_assignment (strip s)"
  then show "load_mapping_arg m arg = Inr m"
    using load_mapping_arg_two[OF assms, of m] by simp
next
  assume a: "strip d \<noteq> [] \<and> prefix ''__'' (strip s)"
  then obtain t where t: "strip s = CHR ''_'' # CHR ''_'' # t" by (auto simp: prefix_def)
  then have "\<not> is_param_assignment (strip s)" by (simp add: is_param_assignment_def)
  with a t show "load_mapping_arg m arg = Inr (m(strip s \<mapsto> strip d))"
    using load_mapping_arg_two[OF assms, of m] by simp
next
  assume a: "strip d \<noteq> [] \<and> strip s = ''_''"
  then have "\<not> is_param_assignment (strip s)" by (simp add: is_param_assignment_def)
  with a show "load_mapping_arg m arg = Inr (m(''_'' \<mapsto> strip d))"
    using load_mapping_arg_two[OF assms, of m] by simp
next
  show "arg \<notin> set (filtered_args argv)"
    using split_REMAP_two(4)[OF assms] by (rule filtered_args_drops)
next
  fix m' k
  assume "load_mappings argv = Inr m' \<and> is_param_assignment k"
  then show "m' k = None"
    using load_mappings_loop_no_param[of Map.empty argv m' k] by (simp add: load_mappings_def)
qed

text \<open>
  The source \<^verbatim>\<open>_\<close> of claim C4 is inserted into the dictionary.
\<close>

theorem single_underscore_source_counterexample:
  "load_mappings [''_:=bar''] = Inr [''_'' \<mapsto> ''bar'']"
  by (simp add: load_mappings_def load_mapping_arg_def py_split_def REMAP_def strip_def
                isspace_def is_param_assignment_def)

theorem param_assignment_excluded_witness:
  "load_mapping_arg Map.empty ''_foo:=bar'' = Inr Map.empty
   \<and> load_mapping_arg Map.empty ''__foo:=bar'' = Inr [''__foo'' \<mapsto> ''bar'']
   \<and> load_mapping_arg Map.empty ''_:=bar'' = Inr [''_'' \<mapsto> ''bar'']
   \<and> ''_foo:=bar'' \<notin> set (filtered_args [''-q'', ''_foo:=bar'', ''robot.xacro''])"
proof -
  have s1: "split_str REMAP ''_foo:=bar'' = [''_foo'', ''bar'']" by (simp add: REMAP_def)
  have s2: "split_str REMAP ''__foo:=bar'' = [''__foo'', ''bar'']" by (simp add: REMAP_def)
  have s3: "split_str REMAP ''_:=bar'' = [''_'', ''bar'']" by (simp add: REMAP_def)
  have st: "strip ''_foo'' = ''_foo''" "strip ''__foo'' = ''__foo''" "strip ''_'' = ''_''"
    "strip ''bar'' = ''bar''"
    by (simp_all add: strip_def isspace_def)
  have p1: "is_param_assignment ''_foo''" by (simp add: is_param_assignment_def)
  have "load_mapping_arg Map.empty ''_foo:=bar'' = Inr Map.empty"
    using param_assignment_excluded[OF s1, of Map.empty "[]"] st p1 by simp
  moreover have "load_mapping_arg Map.empty ''__foo:=bar'' = Inr [''__foo'' \<mapsto> ''bar'']"
    using param_assignment_excluded[OF s2, of Map.empty "[]"] st by simp
  moreover have "load_mapping_arg Map.empty ''_:=bar'' = Inr [''_'' \<mapsto> ''bar'']"
    using param_assignment_excluded[OF s3, of Map.empty "[]"] st by simp
  moreover have "''_foo:=bar'' \<notin> set (filtered_args [''-q'', ''_foo:=bar'', ''robot.xacro''])"
    using param_assignment_excluded[OF s1, of Map.empty "[''-q'', ''_foo:=bar'', ''robot.xacro'']"]
    by blast
  ultimately show ?thesis by blast
qed


section \<open>The filtered argument vector\<close>

lemma load_mappings_loop_plain:
  "\<forall>a\<in>set argv. \<not> str_contains REMAP a \<Longrightarrow> load_mappings_loop m argv = Inr m"
  by (induction argv) (simp_all add: load_mapping_arg_plain)

lemma load_mappings_filtered: "load_mappings (filtered_args argv) = Inr Map.empty"
  by (simp add: load_mappings_def load_mappings_loop_plain filtered_args_def)

lemma filtered_args_idem: "filtered_args (filtered_args argv) = filtered_args argv"
  by (simp add: filtered_args_def)

lemma filtered_args_count:
  "\<not> str_contains REMAP a \<Longrightarrow> count_list (filtered_args argv) a = count_list argv a"
  by (induction argv) (auto simp: filtered_args_def)

lemma process_args_filtered:
  assumes "load_mappings argv = Inr m"
  shows "process_args rt argv require_input w =
     (case process_args rt (filtered_args argv) require_input w of
        (Inl e, w') \<Rightarrow> (Inl e, w')
      | (Inr (opts, input), w') \<Rightarrow> (Inr (opts\<lparr>o_mappings := m\<rparr>, input), w'))"
  using assms
  by (simp add: process_args_def load_mappings_filtered filtered_args_idem parser_error_def
                colorize_def format_s_def Let_def
           split: prod.splits sum.splits list.splits if_splits option.splits)

text \<open>
  Claim C8. No token that contains the delimiter \<^verbatim>\<open>:=\<close> is in the filtered vector, the
  filtered vector is a subsequence of the raw one (the relative order is kept), and
  every token without the delimiter is in it as often as in the raw vector. The flag
  parser sees the filtered vector only: when the mappings load, resolving the raw
  vector is resolving the filtered one, with the mappings attached.
\<close>

theorem remap_tokens_filtered:
  "(\<forall>a. str_contains REMAP a \<longrightarrow> a \<notin> set (filtered_args argv))
   \<and> subseq (filtered_args argv) argv
   \<and> (\<forall>a. \<not> str_contains REMAP a \<longrightarrow> count_list (filtered_args argv) a = count_list argv a)
   \<and> (\<forall>m. load_mappings argv = Inr m \<longrightarrow>
         process_args rt argv require_input w =
           (case process_args rt (filtered_args argv) require_input w of
              (Inl e, w') \<Rightarrow> (Inl e, w')
            | (Inr (opts, input), w') \<Rightarrow> (Inr (opts\<lparr>o_mappings := m\<rparr>, input), w')))"
proof (intro conjI allI impI)
  fix a assume "str_contains REMAP a"
  then show "a \<notin> set (filtered_args argv)" by (rule filtered_args_drops)
next
  show "subseq (filtered_args argv) argv" by (simp add: filtered_args_def)
next
  fix a assume "\<not> str_contains REMAP a"
  then show "count_list (filtered_args argv) a = count_list argv a" by (rule filtered_args_count)
next
  fix m assume "load_mappings argv = Inr m"
  then show "process_args rt argv require_input w =
           (case process_args rt (filtered_args argv) require_input w of
              (Inl e, w') \<Rightarrow> (Inl e, w')
            | (Inr (opts, input), w') \<Rightarrow> (Inr (opts\<lparr>o_mappings := m\<rparr>, input), w'))"
    by (rule process_args_filtered)
qed

theorem remap_tokens_filtered_witness:
  "filtered_args [''-q'', ''a:=b'', ''robot.xacro'', ''_p:=1'', ''-v''] = [''-q'', ''robot.xacro'', ''-v'']
   \<and> ''a:=b'' \<notin> set (filtered_args [''-q'', ''a:=b'', ''robot.xacro'', ''_p:=1'', ''-v''])
   \<and> count_list (filtered_args [''-q'', ''a:=b'', ''robot.xacro'', ''_p:=1'', ''-v'']) ''-q'' = 1"
proof -
  let ?argv = "[''-q'', ''a:=b'', ''robot.xacro'', ''_p:=1'', ''-v'']"
  have c: "str_contains REMAP ''a:=b''" by (simp add: REMAP_def)
  have n: "\<not> str_contains REMAP ''-q''" by (simp add: REMAP_def)
  have f: "filtered_args ?argv = [''-q'', ''robot.xacro'', ''-v'']"
    by (simp add: filtered_args_def REMAP_def)
  have "''a:=b'' \<notin> set (filtered_args ?argv)"
    using remap_tokens_filtered[of ?argv] c by blast
  moreover have "count_list (filtered_args ?argv) ''-q'' = count_list ?argv ''-q''"
    using remap_tokens_filtered[of ?argv] n by blast
  ultimately show ?thesis using f by simp
qed


section \<open>Diagnostics\<close>

text \<open>
  With an alternative text that is a string, \<^verbatim>\<open>colorize\<close> returns, and so do \<^verbatim>\<open>warning\<close>
  and \<^verbatim>\<open>error\<close> on every stream, terminal or not, with or without \<^verbatim>\<open>isatty\<close>. Without
  keywords \<^verbatim>\<open>message\<close> passes \<^verbatim>\<open>None\<close> for the colour and for the alternative text, and
  \<^verbatim>\<open>colorize\<close> formats the alternative text with \<^verbatim>\<open>:s\<close>.
\<close>

lemma colorize_alt_text: "\<exists>text. colorize msg color file (Some alt) = Inr text"
  by (simp add: colorize_def format_s_def Let_def split: option.splits)

lemma colorize_no_alt_text_plain:
  "colorize msg None file None = Inl TypeError"
  by (simp add: colorize_def format_s_def)

lemma message_alt_text:
  assumes "kw_alt_text kwargs = Some (Some alt)"
  shows "fst (message msg args kwargs w) = Inr ()"
proof -
  obtain out where
    "colorize msg (case kw_color kwargs of None \<Rightarrow> None | Some c \<Rightarrow> c)
       (objs w (case kw_file kwargs of None \<Rightarrow> sys_stderr w | Some f \<Rightarrow> f)) (Some alt) = Inr out"
    using colorize_alt_text by blast
  then show ?thesis using assms by (simp add: message_def Let_def)
qed

lemma warning_returns:
  "kw_alt_text kwargs = None \<Longrightarrow> fst (warning msg args kwargs w) = Inr ()"
  by (simp add: warning_def Let_def message_alt_text[where alt="''warning: ''"] update_kwargs_def)

lemma error_returns:
  "kw_alt_text kwargs = None \<Longrightarrow> fst (error msg args kwargs w) = Inr ()"
  by (simp add: error_def Let_def message_alt_text[where alt="''error: ''"] update_kwargs_def)

lemma message_no_kwargs: "message msg args no_kwargs w = (Inl TypeError, w)"
  by (simp add: message_def no_kwargs_def colorize_def format_s_def)


section \<open>Parsing the flags\<close>

lemma op_process_args_positional:
  "positional_arg arg \<Longrightarrow>
     op_process_args rt largs (arg # rargs) vals = op_process_args rt (largs @ [arg]) rargs vals"
  by (auto simp: positional_arg_def)

lemma parse_inorder:
  "op_process_args rt largs (''-i'' # rargs) vals
     = op_process_args rt largs rargs (vals\<lparr>v_in_order := Some True\<rparr>)"
  by (simp add: short_opt_def op_process_flag_def)

lemma parse_quiet:
  "op_process_args rt largs (''-q'' # rargs) vals
     = op_process_args rt largs rargs (vals\<lparr>v_verbosity := 0\<rparr>)"
  by (simp add: short_opt_def op_process_flag_def)

lemma parse_verbose:
  "op_process_args rt largs (''-v'' # rargs) vals
     = op_process_args rt largs rargs (vals\<lparr>v_verbosity := v_verbosity vals + 1\<rparr>)"
  by (simp add: short_opt_def op_process_flag_def)

lemma match_verbosity: "op_match_abbrev ''--verbosity'' = Inr (''--verbosity'', Valued OptVerbosity)"
  by (simp add: op_match_abbrev_def long_opt_def)

lemma parse_level:
  "op_parse_int rt l = Some n \<Longrightarrow>
   op_process_args rt largs (''--verbosity'' # l # rargs) vals
     = op_process_args rt largs rargs (vals\<lparr>v_verbosity := n\<rparr>)"
  by (simp add: op_process_long_opt_def match_verbosity op_process_value_def with_rargs_def)

declare op_process_args.simps(2) [simp del]

lemma parse_vflag:
  "vflag_ok rt f \<Longrightarrow>
   op_process_args rt largs (vflag_tokens f @ rargs) vals
     = op_process_args rt largs rargs (vals\<lparr>v_verbosity := vflag_apply (v_verbosity vals) f\<rparr>)"
  by (cases f) (simp_all add: parse_quiet parse_verbose parse_level)

lemma parse_vflags:
  "list_all (vflag_ok rt) fs \<Longrightarrow>
   op_process_args rt largs (concat (map vflag_tokens fs) @ rargs) vals
     = op_process_args rt largs rargs (vals\<lparr>v_verbosity := foldl vflag_apply (v_verbosity vals) fs\<rparr>)"
proof (induction fs arbitrary: vals)
  case Nil
  then show ?case by simp
next
  case (Cons f fs)
  then show ?case by (simp add: parse_vflag)
qed

lemma vflag_tokens_plain:
  "vflag_ok rt f \<Longrightarrow> a \<in> set (vflag_tokens f) \<Longrightarrow> \<not> str_contains REMAP a"
  by (cases f) (auto simp: REMAP_def)

lemma filtered_args_plain: "\<forall>a\<in>set argv. \<not> str_contains REMAP a \<Longrightarrow> filtered_args argv = argv"
  by (simp add: filtered_args_def)

lemma load_mappings_plain: "\<forall>a\<in>set argv. \<not> str_contains REMAP a \<Longrightarrow> load_mappings argv = Inr Map.empty"
  by (simp add: load_mappings_def load_mappings_loop_plain)

text \<open>
  Claim C1. The claim is that no diagnostics operation raises, and in particular that
  an uncategorized message with no alternative text, as \<^verbatim>\<open>process_args\<close> prints for the
  obsolete flag \<^verbatim>\<open>-i\<close>, does not. In the code \<^verbatim>\<open>message\<close> without keywords raises
  \<^verbatim>\<open>TypeError\<close> for every message, every further argument and every interpreter state,
  and writes nothing; \<^verbatim>\<open>process_args\<close> on \<^verbatim>\<open>-i robot.xacro\<close> ends with that exception.
\<close>

theorem message_without_alt_text_raises:
  "message msg args no_kwargs w = (Inl TypeError, w)
   \<and> process_args rt [''-i'', ''robot.xacro''] require_input w = (Inl TypeError, w)"
proof
  show "message msg args no_kwargs w = (Inl TypeError, w)" by (rule message_no_kwargs)
next
  have p: "positional_arg ''robot.xacro''" by (simp add: positional_arg_def)
  have "op_process_args rt [] [''-i'', ''robot.xacro''] default_values
        = Done ([''robot.xacro''], [], default_values\<lparr>v_in_order := Some True\<rparr>)"
    by (simp add: parse_inorder op_process_args_positional[OF p])
  then have "parse_args rt [''-i'', ''robot.xacro''] w
        = (Inr (default_values\<lparr>v_in_order := Some True\<rparr>, [''robot.xacro'']), w)"
    by (simp add: parse_args_def)
  moreover have "\<forall>a\<in>set [''-i'', ''robot.xacro'']. \<not> str_contains REMAP a"
    by (simp add: REMAP_def)
  ultimately show "process_args rt [''-i'', ''robot.xacro''] require_input w = (Inl TypeError, w)"
    by (simp add: process_args_def load_mappings_plain filtered_args_plain message_no_kwargs
             del: set_simps)
qed

text \<open>
  Claim C6. With no flags and one positional argument \<open>p\<close> (not a remap), resolution
  succeeds with no output file, \<^verbatim>\<open>just_deps\<close> false, \<^verbatim>\<open>in_order\<close> true, verbosity 1, no
  mappings, and the input identifier \<open>p\<close>; the interpreter state is unchanged.
\<close>

theorem no_flags_one_positional:
  assumes "positional_arg p" and "\<not> str_contains REMAP p"
  shows "process_args rt [p] require_input w
         = (Inr (\<lparr>o_output = None, o_just_deps = False, o_in_order = True,
                  o_verbosity = 1, o_mappings = Map.empty\<rparr>, Some p), w)"
proof -
  have "op_process_args rt [] [p] default_values = Done ([p], [], default_values)"
    using assms(1) by (simp add: op_process_args_positional)
  then have "parse_args rt [p] w = (Inr (default_values, [p]), w)"
    by (simp add: parse_args_def)
  then show ?thesis
    using assms(2)
    by (simp add: process_args_def load_mappings_plain filtered_args_plain default_values_def)
qed

theorem no_flags_one_positional_witness:
  "process_args demo_runtime [''robot.xacro''] True demo_world
   = (Inr (\<lparr>o_output = None, o_just_deps = False, o_in_order = True,
            o_verbosity = 1, o_mappings = Map.empty\<rparr>, Some ''robot.xacro''), demo_world)"
proof -
  have p: "positional_arg ''robot.xacro''" by (simp add: positional_arg_def)
  have n: "\<not> str_contains REMAP ''robot.xacro''" by (simp add: REMAP_def)
  show ?thesis using no_flags_one_positional[OF p n] by simp
qed

text \<open>
  Claim C9. For every sequence of verbosity flags before and after the input file,
  resolution yields the verbosity obtained by applying the flags from left to right
  to the default 1: \<^verbatim>\<open>-q\<close> sets 0, \<^verbatim>\<open>--verbosity LEVEL\<close> sets the level, \<^verbatim>\<open>-v\<close> adds one to
  the value held at that point. So \<^verbatim>\<open>-q -v\<close> yields 1 and \<^verbatim>\<open>-v -q\<close> yields 0.
\<close>

theorem verbosity_flags_in_order:
  assumes "list_all (vflag_ok rt) (fs1 @ fs2)"
      and "positional_arg p" and "\<not> str_contains REMAP p"
  shows "process_args rt (concat (map vflag_tokens fs1) @ p # concat (map vflag_tokens fs2))
           require_input w
         = (Inr (\<lparr>o_output = None, o_just_deps = False, o_in_order = True,
                  o_verbosity = foldl vflag_apply 1 (fs1 @ fs2), o_mappings = Map.empty\<rparr>,
                 Some p), w)"
proof -
  let ?argv = "concat (map vflag_tokens fs1) @ p # concat (map vflag_tokens fs2)"
  have ok1: "list_all (vflag_ok rt) fs1" and ok2: "list_all (vflag_ok rt) fs2"
    using assms(1) by simp_all
  have plain: "\<forall>a\<in>set ?argv. \<not> str_contains REMAP a"
    using assms(1,3) vflag_tokens_plain[of rt] by (auto simp: list_all_iff)
  have "op_process_args rt [] ?argv default_values
        = op_process_args rt [] (p # concat (map vflag_tokens fs2))
            (default_values\<lparr>v_verbosity := foldl vflag_apply 1 fs1\<rparr>)"
    using parse_vflags[OF ok1] by (simp add: default_values_def)
  also have "\<dots> = op_process_args rt [p] (concat (map vflag_tokens fs2) @ [])
            (default_values\<lparr>v_verbosity := foldl vflag_apply 1 fs1\<rparr>)"
    using assms(2) by (simp add: op_process_args_positional)
  also have "\<dots> = Done ([p], [], default_values\<lparr>v_verbosity := foldl vflag_apply 1 (fs1 @ fs2)\<rparr>)"
    by (simp only: parse_vflags[OF ok2]) simp
  finally have "parse_args rt ?argv w
        = (Inr (default_values\<lparr>v_verbosity := foldl vflag_apply 1 (fs1 @ fs2)\<rparr>, [p]), w)"
    by (simp add: parse_args_def)
  then show ?thesis
    using plain
    by (simp add: process_args_def load_mappings_plain filtered_args_plain default_values_def)
qed

theorem verbosity_flags_in_order_witness:
  "o_verbosity (fst (projr (fst (process_args demo_runtime [''-q'', ''-v'', ''robot.xacro''] True demo_world)))) = 1
   \<and> o_verbosity (fst (projr (fst (process_args demo_runtime [''-v'', ''-q'', ''robot.xacro''] True demo_world)))) = 0
   \<and> o_verbosity (fst (projr (fst (process_args demo_runtime
        [''--verbosity'', ''3'', ''robot.xacro'', ''-v''] True demo_world)))) = 4"
proof -
  have p: "positional_arg ''robot.xacro''" by (simp add: positional_arg_def)
  have n: "\<not> str_contains REMAP ''robot.xacro''" by (simp add: REMAP_def)
  have l: "vflag_ok demo_runtime (Level ''3'' 3)"
    by (simp add: op_parse_int_def demo_runtime_def REMAP_def)
  have a: "list_all (vflag_ok demo_runtime) ([Quiet, Verbose] @ [])" by simp
  have b: "list_all (vflag_ok demo_runtime) ([Verbose, Quiet] @ [])" by simp
  have c: "list_all (vflag_ok demo_runtime) ([Level ''3'' 3] @ [Verbose])" using l by simp
  show ?thesis
    using verbosity_flags_in_order[OF a p n, of True demo_world]
          verbosity_flags_in_order[OF b p n, of True demo_world]
          verbosity_flags_in_order[OF c p n, of True demo_world]
    by simp
qed


section \<open>The positional argument count\<close>

text \<open>
  The usage error: exit status 2, and on the standard error the usage line and the
  message, in red when the stream \<^verbatim>\<open>colorize\<close> looks at is a terminal. When the flag
  \<^verbatim>\<open>-i\<close> is absent, a positional count other than one takes that path if input is
  required, and gives no input identifier otherwise.
\<close>

lemma parser_error_exits: "fst (parser_error rt msg w) = Inl (SystemExit 2)"
  by (simp add: parser_error_def colorize_def format_s_def ansi_def Let_def)

lemma format_d_91: "format_d 91 = ''91''"
  by (simp add: format_d_def dec_digits.simps)

lemma parser_error_stderr:
  "snd (parser_error rt msg w) =
     py_write (sys_stderr w)
       (prog_name rt @ '': error: '' @
        (if isatty (objs w (stderr_at_import w)) = Some True
         then [CHR 0x1B] @ ''[91m'' @ msg @ [CHR 0x1B] @ ''[0m'' else msg) @ [CHR 0x0A])
       (py_print [''Usage: '' @ prog_name rt @ '' [options] <input>'' @ [CHR 0x0A]]
          (sys_stderr w) w)"
  by (simp add: parser_error_def colorize_def format_s_def ansi_def Let_def format_d_91)

lemma usage_error_when_inorder_absent:
  assumes "load_mappings argv = Inr m"
      and "parse_args rt (filtered_args argv) w = (Inr (vals, pos_args), w1)"
      and "v_in_order vals \<noteq> Some True"
      and "length pos_args \<noteq> 1"
  shows "process_args rt argv True w
           = parser_error rt ''expected exactly one input file as argument'' w1"
    and "process_args rt argv False w
           = (Inr (\<lparr>o_output = v_output vals, o_just_deps = v_just_deps vals,
                    o_in_order = True, o_verbosity = v_verbosity vals, o_mappings = m\<rparr>,
                   None), w1)"
  using assms by (auto simp: process_args_def Let_def split: list.splits)

text \<open>
  Claim C7. The claim is that a positional count other than one gives the usage error
  when input is required, and a null input identifier when it is not required and no
  positional argument remains. In the code the vector \<^verbatim>\<open>-i\<close> has no positional argument,
  and resolution ends with the \<^verbatim>\<open>TypeError\<close> of \<^verbatim>\<open>message\<close> before the count is looked at,
  whether input is required or not.
\<close>

theorem inorder_flag_preempts_usage_error:
  "process_args rt [''-i''] True w = (Inl TypeError, w)
   \<and> process_args rt [''-i''] False w = (Inl TypeError, w)"
proof -
  have "op_process_args rt [] [''-i''] default_values
        = Done ([], [], default_values\<lparr>v_in_order := Some True\<rparr>)"
    by (simp add: parse_inorder)
  then have "parse_args rt [''-i''] w = (Inr (default_values\<lparr>v_in_order := Some True\<rparr>, []), w)"
    by (simp add: parse_args_def)
  moreover have "\<forall>a\<in>set [''-i'']. \<not> str_contains REMAP a"
    by (simp add: REMAP_def)
  ultimately show ?thesis
    by (simp add: process_args_def load_mappings_plain filtered_args_plain message_no_kwargs
             del: set_simps)
qed


section \<open>Capturing the standard output\<close>

lemma stream_write_append:
  "pos s = length (buffer s) \<Longrightarrow>
     stream_write t2 (stream_write t1 s) = stream_write (t1 @ t2) s"
  by (simp add: stream_write_def)

lemma stream_write_new: "stream_write t new_StringIO = new_StringIO\<lparr>buffer := t, pos := length t\<rparr>"
  by (simp add: stream_write_def new_StringIO_def)

lemma seek0_read_written:
  "stream_seek0 (stream_write t new_StringIO) = Inr ((stream_write t new_StringIO)\<lparr>pos := 0\<rparr>)"
  "stream_read ((stream_write t new_StringIO)\<lparr>pos := 0\<rparr>) = Inr (t, stream_write t new_StringIO)"
  by (simp_all add: stream_seek0_def stream_read_def stream_write_def new_StringIO_def)

lemma process_restores:
  "process engine input_file_name just_deps xacro_ns verbosity mappings w = (Inr r, w') \<Longrightarrow>
     sys_stdout w' = sys_stdout w"
  by (auto simp: process_def Let_def split: prod.splits sum.splits)

lemma process_output_None:
  "process engine input_file_name just_deps xacro_ns verbosity mappings w
   = process (\<lambda>f opts. engine f (opts\<lparr>p_output := None\<rparr>))
       input_file_name just_deps xacro_ns verbosity mappings w"
  by (simp add: process_def)

text \<open>
  Claim C5. When the engine returns normally, having left \<^verbatim>\<open>sys.stdout\<close> bound to the
  new sink and the text \<open>captured\<close> written to it from its start, \<^verbatim>\<open>process\<close> returns
  exactly that text and \<^verbatim>\<open>sys.stdout\<close> is bound to the object it was bound to before the
  call. Whenever \<^verbatim>\<open>process\<close> returns, with any engine, the binding is restored. The engine
  only ever sees \<^verbatim>\<open>output=None\<close>.
\<close>

theorem process_returns_captured_text:
  assumes "engine input_file_name
             \<lparr>p_output = None, p_just_deps = just_deps, p_xacro_ns = xacro_ns,
              p_verbosity = verbosity, p_mappings = mappings\<rparr> (redirect_stdout w) = (Inr (), w2)"
      and "sys_stdout w2 = sys_stdout (redirect_stdout w)"
      and "objs w2 (sys_stdout w2) = stream_write captured new_StringIO"
  shows "fst (process engine input_file_name just_deps xacro_ns verbosity mappings w) = Inr captured
       \<and> sys_stdout (snd (process engine input_file_name just_deps xacro_ns verbosity mappings w))
           = sys_stdout w
       \<and> (\<forall>e i r w'. process e i just_deps xacro_ns verbosity mappings w = (Inr r, w') \<longrightarrow>
             sys_stdout w' = sys_stdout w)
       \<and> process engine input_file_name just_deps xacro_ns verbosity mappings w
           = process (\<lambda>f opts. engine f (opts\<lparr>p_output := None\<rparr>))
               input_file_name just_deps xacro_ns verbosity mappings w"
proof (intro conjI allI impI)
  have p: "process engine input_file_name just_deps xacro_ns verbosity mappings w
        = (Inr captured,
           w2\<lparr>objs := (objs w2)(sys_stdout w2 := stream_write captured new_StringIO),
              sys_stdout := sys_stdout w\<rparr>)"
    using assms by (simp add: process_def Let_def seek0_read_written)
  show "fst (process engine input_file_name just_deps xacro_ns verbosity mappings w) = Inr captured"
    by (simp add: p)
  show "sys_stdout (snd (process engine input_file_name just_deps xacro_ns verbosity mappings w))
           = sys_stdout w"
    by (simp add: p)
next
  fix e i r w'
  assume "process e i just_deps xacro_ns verbosity mappings w = (Inr r, w')"
  then show "sys_stdout w' = sys_stdout w" by (rule process_restores)
next
  show "process engine input_file_name just_deps xacro_ns verbosity mappings w
           = process (\<lambda>f opts. engine f (opts\<lparr>p_output := None\<rparr>))
               input_file_name just_deps xacro_ns verbosity mappings w"
    by (rule process_output_None)
qed

theorem process_returns_captured_text_witness:
  "fst (process demo_engine ''robot.xacro'' False True 1 Map.empty demo_world)
     = Inr (''<!-- robot.xacro -->'' @ [CHR 0x0A] @ ''<robot/>'' @ [CHR 0x0A])
   \<and> sys_stdout (snd (process demo_engine ''robot.xacro'' False True 1 Map.empty demo_world)) = 1"
proof -
  let ?t = "''<!-- robot.xacro -->'' @ [CHR 0x0A] @ ''<robot/>'' @ [CHR 0x0A]"
  let ?w1 = "redirect_stdout demo_world"
  let ?w2 = "py_print [''<robot/>''] (sys_stdout ?w1)
               (py_print [''<!-- '' @ ''robot.xacro'' @ '' -->''] (sys_stdout ?w1) ?w1)"
  have a: "demo_engine ''robot.xacro''
             \<lparr>p_output = None, p_just_deps = False, p_xacro_ns = True,
              p_verbosity = 1, p_mappings = Map.empty\<rparr> ?w1 = (Inr (), ?w2)"
    by (simp add: demo_engine_def)
  have b: "sys_stdout ?w2 = sys_stdout ?w1"
    by (simp add: py_print_def py_write_def)
  have c: "objs ?w2 (sys_stdout ?w2) = stream_write ?t new_StringIO"
    by (simp add: py_print_def py_write_def redirect_stdout_def stream_write_def new_StringIO_def)
  have d: "sys_stdout demo_world = 1" by (simp add: demo_world_def)
  have "fst (process demo_engine ''robot.xacro'' False True 1 Map.empty demo_world) = Inr ?t
      \<and> sys_stdout (snd (process demo_engine ''robot.xacro'' False True 1 Map.empty demo_world))
          = sys_stdout demo_world"
    using process_returns_captured_text[where engine=demo_engine
            and input_file_name="''robot.xacro''" and just_deps=False and xacro_ns=True
            and verbosity=1 and mappings=Map.empty and w=demo_world and captured="?t"
            and ?w2.0="?w2", OF a b c]
    by blast
  then show ?thesis using d by simp
qed

end
